theory Spec2Isabelle
  imports Main "HOL-Library.Word" "HOL-Library.AList"
begin

unbundle bit_operations_syntax

section \<open>Data model\<close>

type_synonym uint64 = "64 word"
type_synonym byte = "8 word"

text \<open>
  Go's \<open>error\<close> values. \<open>Errorf\<close> is \<open>fmt.Errorf\<close> with its format string and its
  arguments; \<open>Errno\<close> is a \<open>syscall.Errno\<close>; \<open>Panic\<close> is a run-time panic (a nil
  pointer dereference, an index out of range), which unwinds like an error that no
  caller inspects.
\<close>

datatype arg = ArgInt int | ArgUint uint64 | ArgStr string | ArgErr error
and error =
    ManualStopError
  | ProcessExitedError int int
  | BreakPointExistsError uint64
  | NoSuchBreakpoint uint64
  | Errno nat
  | Errorf string "arg list"
  | Panic string

abbreviation EPERM :: error where "EPERM \<equiv> Errno 1"
abbreviation ESRCH :: error where "ESRCH \<equiv> Errno 3"
abbreviation SIGTRAP :: int where "SIGTRAP \<equiv> 5"
abbreviation SIGSTOP :: int where "SIGSTOP \<equiv> 19"
abbreviation PTRACE_EVENT_CLONE :: int where "PTRACE_EVENT_CLONE \<equiv> 3"
abbreviation PTRACE_O_TRACECLONE :: int where "PTRACE_O_TRACECLONE \<equiv> 8"
abbreviation WALL :: int where "WALL \<equiv> 1073741824"

text \<open>
  A \<open>sys.WaitStatus\<close> is read only through four accessors; the record holds what
  they return.
\<close>

record WaitStatus =
  Exited :: bool
  ExitStatus :: int
  StopSignal :: int
  TrapCause :: int

text \<open>
  \<open>ThreadContext\<close>: the back reference \<open>Process\<close> is the owning process, which every
  function below receives as its state. A \<open>*ThreadContext\<close> is created only by
  \<open>addThread\<close>, which stores the new object under its own id and never replaces or
  deletes an entry, so a pointer to a thread is modelled by that key and \<open>nil\<close> by
  \<open>None\<close>.
\<close>

record ThreadContext =
  Id_thread :: int
  Status :: "WaitStatus option"

record Regs =
  PC :: uint64
  SP :: uint64

text \<open>
  Modelled from the spec: the \<open>BreakPoint\<close> type is declared in a file that is not
  part of the sources at hand. The fields \<open>ID\<close>, \<open>Addr\<close> and \<open>Temp\<close> are the ones
  the code reads and writes; the original instruction byte (software breakpoints) and
  the slot index (hardware breakpoints) are the ones section 3 of the specification
  lists.
\<close>

record BreakPoint =
  ID :: int
  Addr :: uint64
  OriginalData :: "byte list"
  Temp :: bool
  reg :: "nat option"

text \<open>
  A \<open>*BreakPoint\<close> points into one of the two tables of the process: a hardware slot
  or the entry of the software map under an address.
\<close>

datatype bpref = HWRef nat | SWRef uint64

record Func =
  Name :: string
  Entry :: uint64

record GoSymTable =
  LineToPC :: "string \<Rightarrow> int \<Rightarrow> error + uint64"
  LookupFunc :: "string \<Rightarrow> Func option"
  PCToFunc :: "uint64 \<Rightarrow> Func option"

text \<open>\<open>ReturnAddressOffset\<close> yields an \<open>int64\<close>, kept as its 64-bit pattern.\<close>

record FrameDescriptionEntry =
  End :: uint64
  ReturnAddressOffset :: "uint64 \<Rightarrow> uint64"

record Location =
  File :: string
  Line :: int
  Address :: uint64
  Delta :: int

record DebugLineInfo =
  LocationInfoForPC :: "uint64 \<Rightarrow> Location"
  LocationInfoForFileLine :: "string \<Rightarrow> int \<Rightarrow> Location"
  NextLocation :: "uint64 \<Rightarrow> Location"

record OSProcessDetails =
  task :: "32 word"
  portSet :: "32 word"
  exceptionPort :: "32 word"
  notificationPort :: "32 word"

text \<open>
  \<open>DebuggedProcess\<close>. The two Go maps are association lists: \<open>map_of\<close> is the lookup,
  and the order of the list stands for the order in which one \<open>range\<close> over the map
  visits it, which Go leaves unspecified. Go's \<open>int\<close> has 64 bits here; process ids,
  thread ids and the breakpoint counter stay far from its bounds and are integers.
  \<open>target\<close> is the state of the kernel and of the traced process, which the source
  reaches through system calls only.
\<close>

record 'w DebuggedProcess =
  Pid :: int
  GoSymTable :: GoSymTable
  FrameEntries :: "uint64 \<Rightarrow> error + FrameDescriptionEntry"
  LineInfo :: DebugLineInfo
  HWBreakPoints :: "BreakPoint option list"
  BreakPoints :: "(uint64 \<times> BreakPoint) list"
  Threads :: "(int \<times> ThreadContext) list"
  CurrentThread :: "int option"
  os :: OSProcessDetails
  breakpointIDCounter :: int
  running :: bool
  halt :: bool
  target :: 'w

text \<open>
  The operating system and the per-thread primitives of the platform files
  (\<open>registers\<close>, \<open>SetPC\<close>, \<open>singleStep\<close>, \<open>resume\<close>, \<open>Halt\<close>, \<open>blocked\<close>,
  \<open>readMemory\<close>, \<open>writeMemory\<close>, the debug registers) are parameters: each takes the
  target's state and returns its result with the new state. Nothing is assumed about
  them.
\<close>

record 'w Backend =
  Wait4 :: "int \<Rightarrow> int \<Rightarrow> 'w \<Rightarrow> (int \<times> WaitStatus \<times> error option) \<times> 'w"
  PtraceAttach :: "int \<Rightarrow> 'w \<Rightarrow> error option \<times> 'w"
  PtraceSetOptions :: "int \<Rightarrow> int \<Rightarrow> 'w \<Rightarrow> error option \<times> 'w"
  PtraceGetEventMsg :: "int \<Rightarrow> 'w \<Rightarrow> (error + uint64) \<times> 'w"
  registers :: "int \<Rightarrow> 'w \<Rightarrow> (error + Regs) \<times> 'w"
  SetPC :: "int \<Rightarrow> uint64 \<Rightarrow> 'w \<Rightarrow> error option \<times> 'w"
  singleStep :: "int \<Rightarrow> 'w \<Rightarrow> error option \<times> 'w"
  resume :: "int \<Rightarrow> 'w \<Rightarrow> error option \<times> 'w"
  thread_Halt :: "int \<Rightarrow> 'w \<Rightarrow> error option \<times> 'w"
  blocked :: "int \<Rightarrow> 'w \<Rightarrow> bool"
  readMemory :: "int \<Rightarrow> uint64 \<Rightarrow> byte list \<Rightarrow> 'w \<Rightarrow> (byte list \<times> error option) \<times> 'w"
  writeMemory :: "int \<Rightarrow> uint64 \<Rightarrow> byte list \<Rightarrow> 'w \<Rightarrow> error option \<times> 'w"
  setHardwareBreakpoint :: "nat \<Rightarrow> int \<Rightarrow> uint64 \<Rightarrow> 'w \<Rightarrow> error option \<times> 'w"
  clearHardwareBreakpoint :: "nat \<Rightarrow> int \<Rightarrow> 'w \<Rightarrow> error option \<times> 'w"
  mach_port_wait :: "'w \<Rightarrow> 32 word \<times> 'w"
  thread_count :: "'w \<Rightarrow> int \<times> 'w"
  get_threads :: "32 word list \<Rightarrow> 'w \<Rightarrow> (bool \<times> 32 word list) \<times> 'w"

section \<open>The process controller\<close>

definition Running :: "'w DebuggedProcess \<Rightarrow> bool" where
  "Running dbp = running dbp"

text \<open>
  \<open>run\<close>: the deferred function clears \<open>running\<close> on every way out. \<open>None\<close> is a
  driver function that never returns.
\<close>

definition run ::
  "('w DebuggedProcess \<Rightarrow> (error option \<times> 'w DebuggedProcess) option) \<Rightarrow>
   'w DebuggedProcess \<Rightarrow> (error option \<times> 'w DebuggedProcess) option" where
  "run fn dbp =
     (case fn (dbp\<lparr>running := True, halt := False\<rparr>) of
        None \<Rightarrow> None
      | Some (err, dbp') \<Rightarrow>
          Some ((case err of
                   None \<Rightarrow> None
                 | Some e \<Rightarrow> if e = ManualStopError then None else Some e),
                dbp'\<lparr>running := False\<rparr>))"

section \<open>The breakpoint engine\<close>

text \<open>
  Modelled from the spec: \<open>setBreakpoint\<close>, \<open>clearBreakpoint\<close> and
  \<open>BreakPointExistsError\<close> live in a file that is not part of the sources at hand.
  Section 4.2: a hardware breakpoint is preferred if a slot is free, and slots fill
  from index 0; otherwise the original byte is read and stashed and a one-byte trap
  (\<open>0xCC\<close> on the x86 family of section 9) is written; setting fails with
  \<open>BreakpointExists\<close> if a hardware or software breakpoint already covers the address;
  ids come from a monotonic counter, the first one being 1 (seed scenario 1).
  Clearing restores the original byte or frees the slot, and fails with
  \<open>NoSuchBreakpoint\<close> when the address has none. A failure of the backend is
  surfaced unmodified and leaves the tables as they were (section 7).
\<close>

definition BreakpointExists :: "'w DebuggedProcess \<Rightarrow> uint64 \<Rightarrow> bool" where
  "BreakpointExists dbp addr =
     (list_ex (\<lambda>s. case s of None \<Rightarrow> False | Some bp \<Rightarrow> Addr bp = addr) (HWBreakPoints dbp)
      \<or> map_of (BreakPoints dbp) addr \<noteq> None)"

fun free_slot :: "BreakPoint option list \<Rightarrow> nat \<Rightarrow> nat option" where
  "free_slot [] i = None"
| "free_slot (None # ss) i = Some i"
| "free_slot (Some bp # ss) i = free_slot ss (Suc i)"

fun hw_slot_at :: "BreakPoint option list \<Rightarrow> uint64 \<Rightarrow> nat \<Rightarrow> (nat \<times> BreakPoint) option" where
  "hw_slot_at [] addr i = None"
| "hw_slot_at (None # ss) addr i = hw_slot_at ss addr (Suc i)"
| "hw_slot_at (Some bp # ss) addr i =
     (if Addr bp = addr then Some (i, bp) else hw_slot_at ss addr (Suc i))"

definition setBreakpoint ::
  "'w Backend \<Rightarrow> int \<Rightarrow> uint64 \<Rightarrow> 'w DebuggedProcess \<Rightarrow> (error + bpref) \<times> 'w DebuggedProcess" where
  "setBreakpoint K tid addr dbp =
     (if BreakpointExists dbp addr then (Inl (BreakPointExistsError addr), dbp)
      else
        (case free_slot (HWBreakPoints dbp) 0 of
           Some i \<Rightarrow>
             (case setHardwareBreakpoint K i tid addr (target dbp) of
                (Some err, w) \<Rightarrow> (Inl err, dbp\<lparr>target := w\<rparr>)
              | (None, w) \<Rightarrow>
                  (Inr (HWRef i),
                   dbp\<lparr>target := w,
                       breakpointIDCounter := breakpointIDCounter dbp + 1,
                       HWBreakPoints := (HWBreakPoints dbp)
                         [i := Some \<lparr>ID = breakpointIDCounter dbp + 1, Addr = addr,
                                     OriginalData = [], Temp = False, reg = Some i\<rparr>]\<rparr>))
         | None \<Rightarrow>
             (case readMemory K tid addr [0] (target dbp) of
                ((_, Some err), w) \<Rightarrow> (Inl err, dbp\<lparr>target := w\<rparr>)
              | ((originalData, None), w) \<Rightarrow>
                  (case writeMemory K tid addr [0xCC] w of
                     (Some err, w') \<Rightarrow> (Inl err, dbp\<lparr>target := w'\<rparr>)
                   | (None, w') \<Rightarrow>
                       (Inr (SWRef addr),
                        dbp\<lparr>target := w',
                            breakpointIDCounter := breakpointIDCounter dbp + 1,
                            BreakPoints := AList.update addr
                              \<lparr>ID = breakpointIDCounter dbp + 1, Addr = addr,
                               OriginalData = originalData, Temp = False, reg = None\<rparr>
                              (BreakPoints dbp)\<rparr>)))))"

definition clearBreakpoint ::
  "'w Backend \<Rightarrow> int \<Rightarrow> uint64 \<Rightarrow> 'w DebuggedProcess \<Rightarrow>
   (error + BreakPoint) \<times> 'w DebuggedProcess" where
  "clearBreakpoint K tid addr dbp =
     (case hw_slot_at (HWBreakPoints dbp) addr 0 of
        Some (i, bp) \<Rightarrow>
          (case clearHardwareBreakpoint K i tid (target dbp) of
             (Some err, w) \<Rightarrow> (Inl err, dbp\<lparr>target := w\<rparr>)
           | (None, w) \<Rightarrow>
               (Inr bp, dbp\<lparr>target := w, HWBreakPoints := (HWBreakPoints dbp)[i := None]\<rparr>))
      | None \<Rightarrow>
          (case map_of (BreakPoints dbp) addr of
             Some bp \<Rightarrow>
               (case writeMemory K tid (Addr bp) (OriginalData bp) (target dbp) of
                  (Some err, w) \<Rightarrow> (Inl err, dbp\<lparr>target := w\<rparr>)
                | (None, w) \<Rightarrow>
                    (Inr bp, dbp\<lparr>target := w, BreakPoints := AList.delete addr (BreakPoints dbp)\<rparr>))
           | None \<Rightarrow> (Inl (NoSuchBreakpoint addr), dbp)))"

text \<open>\<open>bp.Temp = true\<close> through the pointer that \<open>Break\<close> returned.\<close>

definition set_Temp :: "bpref \<Rightarrow> 'w DebuggedProcess \<Rightarrow> 'w DebuggedProcess" where
  "set_Temp r dbp =
     (case r of
        HWRef i \<Rightarrow>
          dbp\<lparr>HWBreakPoints := (HWBreakPoints dbp)
                 [i := map_option (\<lambda>bp. bp\<lparr>Temp := True\<rparr>) (HWBreakPoints dbp ! i)]\<rparr>
      | SWRef a \<Rightarrow>
          dbp\<lparr>BreakPoints := AList.map_entry a (\<lambda>bp. bp\<lparr>Temp := True\<rparr>) (BreakPoints dbp)\<rparr>)"

text \<open>
  \<open>Break\<close> and \<open>Clear\<close> act through the current thread; \<open>dbp.CurrentThread.Id\<close>
  panics when the current thread is nil.
\<close>

definition Break ::
  "'w Backend \<Rightarrow> uint64 \<Rightarrow> 'w DebuggedProcess \<Rightarrow> (error + bpref) \<times> 'w DebuggedProcess" where
  "Break K addr dbp =
     (case CurrentThread dbp of
        None \<Rightarrow> (Inl (Panic ''nil pointer dereference''), dbp)
      | Some tid \<Rightarrow> setBreakpoint K tid addr dbp)"

definition Clear ::
  "'w Backend \<Rightarrow> uint64 \<Rightarrow> 'w DebuggedProcess \<Rightarrow> (error + BreakPoint) \<times> 'w DebuggedProcess" where
  "Clear K addr dbp =
     (case CurrentThread dbp of
        None \<Rightarrow> (Inl (Panic ''nil pointer dereference''), dbp)
      | Some tid \<Rightarrow> clearBreakpoint K tid addr dbp)"

fun is_Panic :: "error \<Rightarrow> bool" where
  "is_Panic (Panic s) = True"
| "is_Panic e = False"

fun is_BreakPointExistsError :: "error \<Rightarrow> bool" where
  "is_BreakPointExistsError (BreakPointExistsError a) = True"
| "is_BreakPointExistsError e = False"

section \<open>Threads\<close>

definition Registers ::
  "'w Backend \<Rightarrow> int \<Rightarrow> 'w DebuggedProcess \<Rightarrow> (error + Regs) \<times> 'w DebuggedProcess" where
  "Registers K thread dbp =
     (case registers K thread (target dbp) of
        (Inl err, w) \<Rightarrow>
          (Inl (Errorf ''could not get registers: %s'' [ArgErr err]), dbp\<lparr>target := w\<rparr>)
      | (Inr regs, w) \<Rightarrow> (Inr regs, dbp\<lparr>target := w\<rparr>))"

definition CurrentPC ::
  "'w Backend \<Rightarrow> int \<Rightarrow> 'w DebuggedProcess \<Rightarrow> (error + uint64) \<times> 'w DebuggedProcess" where
  "CurrentPC K thread dbp =
     (case Registers K thread dbp of
        (Inl err, d) \<Rightarrow> (Inl err, d)
      | (Inr regs, d) \<Rightarrow> (Inr (PC regs), d))"

text \<open>
  \<open>ThreadContext.Step\<close>. The result \<open>err\<close> is a named result and the deferred
  function assigns it: once the breakpoint has been cleared and the program counter
  rewound, whatever the single step returned is replaced by what \<open>Break\<close> returns.
\<close>

definition ThreadContext_Step ::
  "'w Backend \<Rightarrow> int \<Rightarrow> 'w DebuggedProcess \<Rightarrow> error option \<times> 'w DebuggedProcess" where
  "ThreadContext_Step K thread dbp =
     (case Registers K thread dbp of
        (Inl err, d0) \<Rightarrow> (Some err, d0)
      | (Inr regs, d0) \<Rightarrow>
          (case map_of (BreakPoints d0) (PC regs - 1) of
             Some bp \<Rightarrow>
               (case Clear K (Addr bp) d0 of
                  (Inl err, d1) \<Rightarrow> (Some err, d1)
                | (Inr _, d1) \<Rightarrow>
                    (case SetPC K thread (Addr bp) (target d1) of
                       (Some err, w) \<Rightarrow>
                         (Some (Errorf ''could not set registers %s'' [ArgErr err]), d1\<lparr>target := w\<rparr>)
                     | (None, w) \<Rightarrow>
                         (case singleStep K thread w of
                            (_, w') \<Rightarrow>
                              (case Break K (Addr bp) (d1\<lparr>target := w'\<rparr>) of
                                 (Inl err, d2) \<Rightarrow> (Some err, d2)
                               | (Inr _, d2) \<Rightarrow> (None, d2)))))
           | None \<Rightarrow>
               (case singleStep K thread (target d0) of
                  (Some err, w) \<Rightarrow>
                    (Some (Errorf ''step failed: %s'' [ArgErr err]), d0\<lparr>target := w\<rparr>)
                | (None, w) \<Rightarrow> (None, d0\<lparr>target := w\<rparr>))))"

definition ThreadContext_Continue ::
  "'w Backend \<Rightarrow> int \<Rightarrow> 'w DebuggedProcess \<Rightarrow> error option \<times> 'w DebuggedProcess" where
  "ThreadContext_Continue K thread dbp =
     (case Registers K thread dbp of
        (Inl err, d0) \<Rightarrow> (Some err, d0)
      | (Inr regs, d0) \<Rightarrow>
          (case (if map_of (BreakPoints d0) (PC regs - 1) \<noteq> None
                 then ThreadContext_Step K thread d0 else (None, d0)) of
             (Some err, d1) \<Rightarrow>
               (Some (if is_Panic err then err else Errorf ''could not step %s'' [ArgErr err]), d1)
           | (None, d1) \<Rightarrow>
               (case resume K thread (target d1) of
                  (r, w) \<Rightarrow> (r, d1\<lparr>target := w\<rparr>))))"

text \<open>
  \<open>binary.LittleEndian.Uint64\<close> panics on fewer than eight bytes and reads the first
  eight otherwise.
\<close>

definition LittleEndian_Uint64 :: "byte list \<Rightarrow> error + uint64" where
  "LittleEndian_Uint64 b =
     (if length b < 8 then Inl (Panic ''index out of range'')
      else Inr (foldr (\<lambda>x acc. ucast x OR push_bit 8 acc) (take 8 b) 0))"

text \<open>
  \<open>ReturnAddressFromOffset\<close>: \<open>int64(regs.SP()) + offset\<close> wraps in 64 bits, and the
  error of \<open>readMemory\<close> is dropped.
\<close>

definition ReturnAddressFromOffset ::
  "'w Backend \<Rightarrow> int \<Rightarrow> uint64 \<Rightarrow> 'w DebuggedProcess \<Rightarrow> (error + uint64) \<times> 'w DebuggedProcess" where
  "ReturnAddressFromOffset K thread offset dbp =
     (case Registers K thread dbp of
        (Inl err, d) \<Rightarrow> (Inl (Panic ''Could not obtain register values''), d)
      | (Inr regs, d) \<Rightarrow>
          (case readMemory K thread (SP regs + offset) (replicate 8 0) (target d) of
             ((data, _), w) \<Rightarrow> (LittleEndian_Uint64 data, d\<lparr>target := w\<rparr>)))"

text \<open>
  The \<open>for\<close> loop of \<open>ThreadContext.Next\<close>. It has no bound: it ends at the first row
  at or beyond the end of the function, or at an error of \<open>Break\<close> other than
  \<open>BreakPointExistsError\<close>. \<open>None\<close> is a loop that never ends; \<open>Some (Some err, d)\<close>
  is \<open>return err\<close>, \<open>Some (None, d)\<close> is \<open>break\<close>.
\<close>

partial_function (option) Next_loop ::
  "'w Backend \<Rightarrow> int \<Rightarrow> uint64 \<Rightarrow> FrameDescriptionEntry \<Rightarrow> Location \<Rightarrow> 'w DebuggedProcess \<Rightarrow>
   (error option \<times> 'w DebuggedProcess) option" where
  "Next_loop K thread pc fde loc dbp =
     (let loc' = NextLocation (LineInfo dbp) (Address loc) in
      if Address loc' = pc then Next_loop K thread pc fde loc' dbp
      else if End fde \<le> Address loc' then
        (case ReturnAddressFromOffset K thread (ReturnAddressOffset fde pc - 8) dbp of
           (Inl p, d) \<Rightarrow> Some (Some p, d)
         | (Inr ret, d) \<Rightarrow>
             (case Break K ret d of
                (Inr bp, d') \<Rightarrow> Some (None, set_Temp bp d')
              | (Inl err, d') \<Rightarrow> Some (if is_Panic err then Some err else None, d')))
      else
        (case Break K (Address loc') dbp of
           (Inl err, d) \<Rightarrow>
             if is_BreakPointExistsError err then Next_loop K thread pc fde loc' d
             else Some (Some err, d)
         | (Inr bp, d) \<Rightarrow> Next_loop K thread pc fde loc' (set_Temp bp d)))"

declare Next_loop.simps [code]

definition ThreadContext_Next ::
  "'w Backend \<Rightarrow> int \<Rightarrow> 'w DebuggedProcess \<Rightarrow> (error option \<times> 'w DebuggedProcess) option" where
  "ThreadContext_Next K thread dbp =
     (case CurrentPC K thread dbp of
        (Inl err, d0) \<Rightarrow> Some (Some err, d0)
      | (Inr pc0, d0) \<Rightarrow>
          (let pc = (case map_of (BreakPoints d0) (pc0 - 1) of
                       Some bp \<Rightarrow> Addr bp | None \<Rightarrow> pc0)
           in case FrameEntries d0 pc of
                Inl err \<Rightarrow> Some (Some err, d0)
              | Inr fde \<Rightarrow>
                  (let loc0 = LocationInfoForPC (LineInfo d0) pc;
                       loc = (if Delta loc0 < 0
                              then LocationInfoForFileLine (LineInfo d0) (File loc0) (Line loc0)
                              else loc0)
                   in case Next_loop K thread pc fde loc d0 of
                        None \<Rightarrow> None
                      | Some (Some err, d1) \<Rightarrow> Some (Some err, d1)
                      | Some (None, d1) \<Rightarrow> Some (ThreadContext_Continue K thread d1))))"

section \<open>The ptrace host\<close>

fun Halt_loop ::
  "'w Backend \<Rightarrow> (int \<times> ThreadContext) list \<Rightarrow> 'w DebuggedProcess \<Rightarrow>
   error option \<times> 'w DebuggedProcess" where
  "Halt_loop K [] dbp = (None, dbp)"
| "Halt_loop K (th # ths) dbp =
     (case thread_Halt K (fst th) (target dbp) of
        (Some err, w) \<Rightarrow> (Some err, dbp\<lparr>target := w\<rparr>)
      | (None, w) \<Rightarrow> Halt_loop K ths (dbp\<lparr>target := w\<rparr>))"

definition Halt :: "'w Backend \<Rightarrow> 'w DebuggedProcess \<Rightarrow> error option \<times> 'w DebuggedProcess" where
  "Halt K dbp = Halt_loop K (Threads dbp) dbp"

definition wait ::
  "'w Backend \<Rightarrow> int \<Rightarrow> int \<Rightarrow> 'w DebuggedProcess \<Rightarrow>
   (int \<times> WaitStatus \<times> error option) \<times> 'w DebuggedProcess" where
  "wait K pid options dbp =
     (case Wait4 K pid (WALL OR options) (target dbp) of
        (r, w) \<Rightarrow> (r, dbp\<lparr>target := w\<rparr>))"

text \<open>
  \<open>addThread\<close> returns the pointer to the registered thread, that is its key. An
  error of the first \<open>PtraceSetOptions\<close> other than \<open>ESRCH\<close> is not looked at.
\<close>

definition register_thread :: "int \<Rightarrow> 'w DebuggedProcess \<Rightarrow> 'w DebuggedProcess" where
  "register_thread tid dbp =
     (let d = dbp\<lparr>Threads := AList.update tid \<lparr>Id_thread = tid, Status = None\<rparr> (Threads dbp)\<rparr>
      in if CurrentThread d = None then d\<lparr>CurrentThread := Some tid\<rparr> else d)"

definition addThread ::
  "'w Backend \<Rightarrow> int \<Rightarrow> bool \<Rightarrow> 'w DebuggedProcess \<Rightarrow> (error + int) \<times> 'w DebuggedProcess" where
  "addThread K tid attach dbp =
     (if map_of (Threads dbp) tid \<noteq> None then (Inr tid, dbp)
      else
        (case (if attach then
                 (case PtraceAttach K tid (target dbp) of
                    (err, w) \<Rightarrow>
                      if err \<noteq> None \<and> err \<noteq> Some EPERM then
                        (Some (Errorf ''could not attach to new thread %d %s'' [ArgInt tid, ArgErr (the err)]),
                         dbp\<lparr>target := w\<rparr>)
                      else
                        (case wait K tid 0 (dbp\<lparr>target := w\<rparr>) of
                           ((pid, status, Some err'), d) \<Rightarrow> (Some err', d)
                         | ((pid, status, None), d) \<Rightarrow>
                             if Exited status
                             then (Some (Errorf ''thread already exited %d'' [ArgInt pid]), d)
                             else (None, d)))
               else (None, dbp)) of
           (Some err, d0) \<Rightarrow> (Inl err, d0)
         | (None, d0) \<Rightarrow>
             (case PtraceSetOptions K tid PTRACE_O_TRACECLONE (target d0) of
                (err, w) \<Rightarrow>
                  if err = Some ESRCH then
                    (case wait K tid 0 (d0\<lparr>target := w\<rparr>) of
                       ((_, _, Some err'), d1) \<Rightarrow>
                         (Inl (Errorf ''error while waiting after adding thread: %d %s''
                                 [ArgInt tid, ArgErr err']), d1)
                     | ((_, _, None), d1) \<Rightarrow>
                         (case PtraceSetOptions K tid PTRACE_O_TRACECLONE (target d1) of
                            (Some err'', w') \<Rightarrow>
                              (Inl (Errorf ''could not set options for new traced thread %d %s''
                                      [ArgInt tid, ArgErr err'']), d1\<lparr>target := w'\<rparr>)
                          | (None, w') \<Rightarrow> (Inr tid, register_thread tid (d1\<lparr>target := w'\<rparr>))))
                  else (Inr tid, register_thread tid (d0\<lparr>target := w\<rparr>)))))"

text \<open>
  \<open>trapWait\<close> is a \<open>for\<close> without a condition: \<open>None\<close> is a wait that never
  returns. Calling \<open>Continue\<close> on the nil pointer that a missing key yields panics.
\<close>

definition set_Status :: "int \<Rightarrow> WaitStatus \<Rightarrow> 'w DebuggedProcess \<Rightarrow> 'w DebuggedProcess" where
  "set_Status wpid status dbp =
     (case map_of (Threads dbp) wpid of
        Some th \<Rightarrow> dbp\<lparr>Threads := AList.update wpid (th\<lparr>Status := Some status\<rparr>) (Threads dbp)\<rparr>
      | None \<Rightarrow> dbp)"

partial_function (option) trapWait ::
  "'w Backend \<Rightarrow> 'w DebuggedProcess \<Rightarrow> int \<Rightarrow> ((error + int) \<times> 'w DebuggedProcess) option" where
  "trapWait K dbp pid =
     (case wait K pid 0 dbp of
        ((wpid, status, Some err), d0) \<Rightarrow> Some (Inl (Errorf ''wait err %s %d'' [ArgErr err, ArgInt pid]), d0)
      | ((wpid, status, None), d0) \<Rightarrow>
          if wpid = 0 then trapWait K d0 pid
          else
            (let d1 = set_Status wpid status d0 in
             if Exited status \<and> wpid = Pid d1
             then Some (Inl (ProcessExitedError wpid (ExitStatus status)), d1)
             else if StopSignal status = SIGTRAP \<and> TrapCause status = PTRACE_EVENT_CLONE then
               (case PtraceGetEventMsg K wpid (target d1) of
                  (Inl err, w) \<Rightarrow>
                    Some (Inl (Errorf ''could not get event message: %s'' [ArgErr err]), d1\<lparr>target := w\<rparr>)
                | (Inr cloned, w) \<Rightarrow>
                    (case addThread K (sint cloned) False (d1\<lparr>target := w\<rparr>) of
                       (Inl err, d2) \<Rightarrow> Some (Inl err, d2)
                     | (Inr th, d2) \<Rightarrow>
                         (case ThreadContext_Continue K th d2 of
                            (Some err, d3) \<Rightarrow>
                              Some (Inl (if is_Panic err then err
                                         else Errorf ''could not continue new thread %d %s''
                                                [ArgUint cloned, ArgErr err]), d3)
                          | (None, d3) \<Rightarrow>
                              (case map_of (Threads d3) wpid of
                                 None \<Rightarrow> Some (Inl (Panic ''nil pointer dereference''), d3)
                               | Some parent \<Rightarrow>
                                   (case ThreadContext_Continue K wpid d3 of
                                      (Some err, d4) \<Rightarrow>
                                        Some (Inl (if is_Panic err then err
                                                   else Errorf ''could not continue new thread %d %s''
                                                          [ArgUint cloned, ArgErr err]), d4)
                                    | (None, d4) \<Rightarrow> trapWait K d4 pid)))))
             else if StopSignal status = SIGTRAP then Some (Inr wpid, d1)
             else if StopSignal status = SIGSTOP \<and> halt d1 then Some (Inl ManualStopError, d1)
             else trapWait K d1 pid))"

declare trapWait.simps [code]

section \<open>The mach host\<close>

text \<open>
  The second platform file defines \<open>addThread\<close>, \<open>updateThreadList\<close>, \<open>trapWait\<close>
  and \<open>wait\<close> again; its versions carry the suffix \<open>_darwin\<close>. \<open>Halt\<close> is the same
  text on both hosts.
\<close>

definition wait_darwin ::
  "'w Backend \<Rightarrow> int \<Rightarrow> int \<Rightarrow> 'w DebuggedProcess \<Rightarrow>
   (int \<times> WaitStatus \<times> error option) \<times> 'w DebuggedProcess" where
  "wait_darwin K pid options dbp =
     (case Wait4 K pid options (target dbp) of
        (r, w) \<Rightarrow> (r, dbp\<lparr>target := w\<rparr>))"

definition addThread_darwin ::
  "'w Backend \<Rightarrow> int \<Rightarrow> bool \<Rightarrow> 'w DebuggedProcess \<Rightarrow> (error + int) \<times> 'w DebuggedProcess" where
  "addThread_darwin K port attach dbp =
     (if map_of (Threads dbp) port \<noteq> None then (Inr port, dbp)
      else (Inr port, register_thread port dbp))"

fun addThreads_darwin ::
  "'w Backend \<Rightarrow> 32 word list \<Rightarrow> 'w DebuggedProcess \<Rightarrow> error option \<times> 'w DebuggedProcess" where
  "addThreads_darwin K [] dbp = (None, dbp)"
| "addThreads_darwin K (port # ports) dbp =
     (if map_of (Threads dbp) (uint port) = None then
        (case addThread_darwin K (uint port) False dbp of
           (Inl err, d) \<Rightarrow> (Some err, d)
         | (Inr _, d) \<Rightarrow> addThreads_darwin K ports d)
      else addThreads_darwin K ports dbp)"

text \<open>
  \<open>updateThreadList\<close>: \<open>make\<close> panics on a negative length and \<open>&list[0]\<close> on an
  empty slice. \<open>get_threads\<close> fills the slice it is given, which keeps its length.
\<close>

definition updateThreadList_darwin ::
  "'w Backend \<Rightarrow> 'w DebuggedProcess \<Rightarrow> error option \<times> 'w DebuggedProcess" where
  "updateThreadList_darwin K dbp =
     (case thread_count K (target dbp) of
        (count, w) \<Rightarrow>
          if count = - 1 then (Some (Errorf ''could not get thread count'' []), dbp\<lparr>target := w\<rparr>)
          else if count < 0 then (Some (Panic ''makeslice: len out of range''), dbp\<lparr>target := w\<rparr>)
          else if count = 0 then (Some (Panic ''index out of range''), dbp\<lparr>target := w\<rparr>)
          else
            (case get_threads K (replicate (nat count) 0) w of
               ((ok, filled), w') \<Rightarrow>
                 if \<not> ok then (Some (Errorf ''could not get thread list'' []), dbp\<lparr>target := w'\<rparr>)
                 else addThreads_darwin K (take (nat count) (filled @ replicate (nat count) 0))
                        (dbp\<lparr>target := w'\<rparr>)))"

abbreviation MACH_RCV_INTERRUPTED :: "32 word" where "MACH_RCV_INTERRUPTED \<equiv> 0x10004005"

text \<open>
  \<open>trapWait\<close> of the mach host drops the error of \<open>updateThreadList\<close> and assigns
  the result of an unchecked map lookup to \<open>CurrentThread\<close>: nil for a missing key.
\<close>

definition trapWait_darwin ::
  "'w Backend \<Rightarrow> 'w DebuggedProcess \<Rightarrow> int \<Rightarrow> (error + int) \<times> 'w DebuggedProcess" where
  "trapWait_darwin K dbp pid =
     (case mach_port_wait K (target dbp) of
        (port, w) \<Rightarrow>
          (let d0 = dbp\<lparr>target := w\<rparr> in
           if port = MACH_RCV_INTERRUPTED then (Inl ManualStopError, d0)
           else if port = notificationPort (os d0) then
             (case wait_darwin K (Pid d0) 0 d0 of
                ((_, status, Some err), d1) \<Rightarrow> (Inl err, d1)
              | ((_, status, None), d1) \<Rightarrow>
                  (Inl (ProcessExitedError (Pid d1) (ExitStatus status)), d1))
           else if port = 0 then (Inl (Errorf ''error while waiting for task'' []), d0)
           else
             (case updateThreadList_darwin K d0 of
                (r, d1) \<Rightarrow>
                  if (case r of Some err \<Rightarrow> is_Panic err | None \<Rightarrow> False)
                  then (Inl (the r), d1)
                  else
                    (case CurrentThread d1 of
                       None \<Rightarrow> (Inl (Panic ''nil pointer dereference''), d1)
                     | Some cur \<Rightarrow>
                         if uint port \<noteq> cur
                         then (Inr (uint port),
                               d1\<lparr>CurrentThread :=
                                     (if map_of (Threads d1) (uint port) \<noteq> None
                                      then Some (uint port) else None)\<rparr>)
                         else (Inr (uint port), d1)))))"

section \<open>Driving the process\<close>

definition DebuggedProcess_Registers ::
  "'w Backend \<Rightarrow> 'w DebuggedProcess \<Rightarrow> (error + Regs) \<times> 'w DebuggedProcess" where
  "DebuggedProcess_Registers K dbp =
     (case CurrentThread dbp of
        None \<Rightarrow> (Inl (Panic ''nil pointer dereference''), dbp)
      | Some cur \<Rightarrow> Registers K cur dbp)"

definition SwitchThread :: "int \<Rightarrow> 'w DebuggedProcess \<Rightarrow> error option \<times> 'w DebuggedProcess" where
  "SwitchThread tid dbp =
     (case map_of (Threads dbp) tid of
        Some th \<Rightarrow> (None, dbp\<lparr>CurrentThread := Some tid\<rparr>)
      | None \<Rightarrow> (Some (Errorf ''thread %d does not exist'' [ArgInt tid]), dbp))"

subsection \<open>Next\<close>

text \<open>The first loop of \<open>Next\<close>, over the threads; the counter is the source's \<open>ran\<close>, the number of stepped threads.\<close>

fun Next_threads ::
  "'w Backend \<Rightarrow> (int \<times> ThreadContext) list \<Rightarrow> nat \<Rightarrow> 'w DebuggedProcess \<Rightarrow>
   ((error + nat) \<times> 'w DebuggedProcess) option" where
  "Next_threads K [] n dbp = Some (Inr n, dbp)"
| "Next_threads K (th # ths) n dbp =
     (if blocked K (fst th) (target dbp) then
        (case ThreadContext_Continue K (fst th) dbp of
           (Some err, d) \<Rightarrow> Some (Inl err, d)
         | (None, d) \<Rightarrow> Next_threads K ths n d)
      else
        (case ThreadContext_Next K (fst th) dbp of
           None \<Rightarrow> None
         | Some (err, d) \<Rightarrow>
             if err \<noteq> None \<and> err \<noteq> Some ESRCH then Some (Inl (the err), d)
             else Next_threads K ths (Suc n) d))"

text \<open>
  The second loop: one \<open>trapWait\<close> for each stepped thread. The registers are those
  of the current thread; \<open>SetPC\<close> on the nil pointer of a missing key panics.
\<close>

fun Next_waits ::
  "'w Backend \<Rightarrow> nat \<Rightarrow> 'w DebuggedProcess \<Rightarrow> (error option \<times> 'w DebuggedProcess) option" where
  "Next_waits K 0 dbp = Some (None, dbp)"
| "Next_waits K (Suc n) dbp =
     (case trapWait K dbp 0 of
        None \<Rightarrow> None
      | Some (Inl err, d0) \<Rightarrow> Some (Some err, d0)
      | Some (Inr wpid, d0) \<Rightarrow>
          (let th = map_of (Threads d0) wpid in
           case DebuggedProcess_Registers K d0 of
             (Inl err, d1) \<Rightarrow> Some (Some err, d1)
           | (Inr regs, d1) \<Rightarrow>
               (case th of
                  None \<Rightarrow> Some (Some (Panic ''nil pointer dereference''), d1)
                | Some thread \<Rightarrow>
                    (case SetPC K wpid (PC regs - 1) (target d1) of
                       (Some err, w) \<Rightarrow> Some (Some err, d1\<lparr>target := w\<rparr>)
                     | (None, w) \<Rightarrow> Next_waits K n (d1\<lparr>target := w\<rparr>)))))"

text \<open>
  The deferred function of \<open>Next\<close>: it ranges over the software map \<open>BreakPoints\<close>
  and over nothing else, and drops what \<open>Clear\<close> returns. An entry deleted before
  the range reaches it is not visited.
\<close>

fun clear_temps ::
  "'w Backend \<Rightarrow> (uint64 \<times> BreakPoint) list \<Rightarrow> 'w DebuggedProcess \<Rightarrow>
   error option \<times> 'w DebuggedProcess" where
  "clear_temps K [] dbp = (None, dbp)"
| "clear_temps K (e # es) dbp =
     (case map_of (BreakPoints dbp) (fst e) of
        None \<Rightarrow> clear_temps K es dbp
      | Some bp \<Rightarrow>
          if Temp bp then
            (case Clear K (Addr bp) dbp of
               (Inl err, d) \<Rightarrow> if is_Panic err then (Some err, d) else clear_temps K es d
             | (Inr _, d) \<Rightarrow> clear_temps K es d)
          else clear_temps K es dbp)"

definition Next_body ::
  "'w Backend \<Rightarrow> 'w DebuggedProcess \<Rightarrow> (error option \<times> 'w DebuggedProcess) option" where
  "Next_body K dbp =
     (case Next_threads K (Threads dbp) 0 dbp of
        None \<Rightarrow> None
      | Some (Inl err, d) \<Rightarrow> Some (Some err, d)
      | Some (Inr n, d) \<Rightarrow>
          (case Next_waits K n d of
             None \<Rightarrow> None
           | Some (Some err, d') \<Rightarrow> Some (Some err, d')
           | Some (None, d') \<Rightarrow> Some (Halt K d')))"

definition Next_fn ::
  "'w Backend \<Rightarrow> 'w DebuggedProcess \<Rightarrow> (error option \<times> 'w DebuggedProcess) option" where
  "Next_fn K dbp =
     (case Next_body K dbp of
        None \<Rightarrow> None
      | Some (err, d) \<Rightarrow>
          (case clear_temps K (BreakPoints d) d of
             (Some p, d') \<Rightarrow> Some (Some p, d')
           | (None, d') \<Rightarrow> Some (err, d')))"

definition DebuggedProcess_Next ::
  "'w Backend \<Rightarrow> 'w DebuggedProcess \<Rightarrow> (error option \<times> 'w DebuggedProcess) option" where
  "DebuggedProcess_Next K dbp = run (Next_fn K) dbp"

subsection \<open>Continue\<close>


fun find_HWBreakPoint :: "(BreakPoint \<Rightarrow> bool) \<Rightarrow> BreakPoint option list \<Rightarrow> BreakPoint option" where
  "find_HWBreakPoint P [] = None"
| "find_HWBreakPoint P (None # ss) = find_HWBreakPoint P ss"
| "find_HWBreakPoint P (Some bp # ss) = (if P bp then Some bp else find_HWBreakPoint P ss)"




subsection \<open>Locations\<close>

text \<open>
  \<open>filepath.Abs\<close>, \<open>strconv.Atoi\<close> and \<open>strconv.ParseUint\<close> (called with base 0 and
  64 bits) belong to Go's library and are parameters.
\<close>

record Library =
  Abs :: "string \<Rightarrow> error + string"
  Atoi :: "string \<Rightarrow> error + int"
  ParseUint :: "string \<Rightarrow> error + uint64"

fun Split :: "string \<Rightarrow> char \<Rightarrow> string list" where
  "Split [] sep = [[]]"
| "Split (c # cs) sep =
     (if c = sep then [] # Split cs sep
      else (case Split cs sep of [] \<Rightarrow> [[c]] | x # xs \<Rightarrow> (c # x) # xs))"

text \<open>The two searches by id; \<open>uint64(bp.ID)\<close> is the 64-bit pattern of the id.\<close>

fun find_ID :: "uint64 \<Rightarrow> (uint64 \<times> BreakPoint) list \<Rightarrow> BreakPoint option" where
  "find_ID n [] = None"
| "find_ID n (e # es) = (if word_of_int (ID (snd e)) = n then Some (snd e) else find_ID n es)"

definition FindLocation :: "Library \<Rightarrow> 'w DebuggedProcess \<Rightarrow> string \<Rightarrow> error + uint64" where
  "FindLocation L dbp str =
     (if CHR '':'' \<in> set str then
        (case Split str (CHR '':'') of
           f0 # f1 # rest \<Rightarrow>
             (case Abs L f0 of
                Inl err \<Rightarrow> Inl err
              | Inr fileName \<Rightarrow>
                  (case Atoi L f1 of
                     Inl err \<Rightarrow> Inl err
                   | Inr line \<Rightarrow>
                       (case LineToPC (GoSymTable dbp) fileName line of
                          Inl err \<Rightarrow> Inl err
                        | Inr pc \<Rightarrow> Inr pc)))
         | _ \<Rightarrow> Inl (Panic ''index out of range''))
      else
        (case LookupFunc (GoSymTable dbp) str of
           Some fn \<Rightarrow> Inr (Entry fn)
         | None \<Rightarrow>
             (case ParseUint L str of
                Inl err \<Rightarrow> Inl (Errorf ''unable to find location for %s'' [ArgStr str])
              | Inr n \<Rightarrow>
                  (case find_HWBreakPoint (\<lambda>bp. word_of_int (ID bp) = n) (HWBreakPoints dbp) of
                     Some bp \<Rightarrow> Inr (Addr bp)
                   | None \<Rightarrow>
                       (case find_ID n (BreakPoints dbp) of
                          Some bp \<Rightarrow> Inr (Addr bp)
                        | None \<Rightarrow> Inr n)))))"

section \<open>A scripted target\<close>

text \<open>
  A target for running the definitions: the wait events it will deliver, the
  registers of its threads, and the log of the calls made on it. Its memory holds the
  return address \<open>0x401300\<close> wherever it is read.
\<close>

record World =
  pending :: "(int \<times> WaitStatus) list"
  regs_of :: "(int \<times> Regs) list"
  calls :: "string list"

definition logged :: "string \<Rightarrow> World \<Rightarrow> World" where
  "logged c w = w\<lparr>calls := calls w @ [c]\<rparr>"

definition no_status :: WaitStatus where
  "no_status = \<lparr>Exited = False, ExitStatus = - 1, StopSignal = - 1, TrapCause = - 1\<rparr>"

definition trap_status :: WaitStatus where
  "trap_status = \<lparr>Exited = False, ExitStatus = - 1, StopSignal = 5, TrapCause = 0\<rparr>"


definition scripted :: "World Backend" where
  "scripted =
     \<lparr>Wait4 = (\<lambda>pid options w.
         case pending w of
           [] \<Rightarrow> ((- 1, no_status, Some (Errno 10)), logged ''wait4'' w)
         | ev # evs \<Rightarrow> ((fst ev, snd ev, None), logged ''wait4'' (w\<lparr>pending := evs\<rparr>))),
      PtraceAttach = (\<lambda>tid w. (None, logged ''attach'' w)),
      PtraceSetOptions = (\<lambda>tid options w. (None, logged ''setoptions'' w)),
      PtraceGetEventMsg = (\<lambda>tid w. (Inr 101, logged ''geteventmsg'' w)),
      registers = (\<lambda>tid w.
         case map_of (regs_of w) tid of
           None \<Rightarrow> (Inl ESRCH, w)
         | Some r \<Rightarrow> (Inr r, w)),
      SetPC = (\<lambda>tid pc w.
         case map_of (regs_of w) tid of
           None \<Rightarrow> (Some ESRCH, w)
         | Some r \<Rightarrow> (None, logged ''setpc'' (w\<lparr>regs_of := AList.update tid (r\<lparr>PC := pc\<rparr>) (regs_of w)\<rparr>))),
      singleStep = (\<lambda>tid w.
         case map_of (regs_of w) tid of
           None \<Rightarrow> (Some ESRCH, w)
         | Some r \<Rightarrow>
             (None, logged ''singlestep'' (w\<lparr>regs_of := AList.update tid (r\<lparr>PC := PC r + 1\<rparr>) (regs_of w)\<rparr>))),
      resume = (\<lambda>tid w. (None, logged ''resume'' w)),
      thread_Halt = (\<lambda>tid w. (None, logged ''halt'' w)),
      blocked = (\<lambda>tid w. False),
      readMemory = (\<lambda>tid addr buf w.
         ((take (length buf) [0x00, 0x13, 0x40, 0, 0, 0, 0, 0], None), logged ''read'' w)),
      writeMemory = (\<lambda>tid addr data w. (None, logged ''write'' w)),
      setHardwareBreakpoint = (\<lambda>i tid addr w. (None, logged ''sethw'' w)),
      clearHardwareBreakpoint = (\<lambda>i tid w. (None, logged ''clearhw'' w)),
      mach_port_wait = (\<lambda>w. (2, logged ''portwait'' w)),
      thread_count = (\<lambda>w. (- 1, logged ''threadcount'' w)),
      get_threads = (\<lambda>buf w. ((False, buf), logged ''getthreads'' w))\<rparr>"

text \<open>
  A function \<open>main.foo\<close> from \<open>0x401100\<close> to \<open>0x401120\<close> with rows of the line
  table at \<open>0x401100\<close>, \<open>0x401108\<close>, \<open>0x401110\<close> and \<open>0x401118\<close>, the next row
  lying in another function; the runtime's breakpoint function at \<open>0x402000\<close>.
\<close>

definition symbols :: GoSymTable where
  "symbols =
     \<lparr>LineToPC = (\<lambda>file line. Inl (Errorf ''no code at %s:%d'' [ArgStr file, ArgInt line])),
      LookupFunc = (\<lambda>name.
         if name = ''main.foo'' then Some \<lparr>Name = ''main.foo'', Entry = 0x401100\<rparr> else None),
      PCToFunc = (\<lambda>pc.
         if 0x402000 \<le> pc \<and> pc < 0x402010
         then Some \<lparr>Name = ''runtime.breakpoint'', Entry = 0x402000\<rparr>
         else Some \<lparr>Name = ''main.foo'', Entry = 0x401100\<rparr>)\<rparr>"

definition lines :: DebugLineInfo where
  "lines =
     \<lparr>LocationInfoForPC = (\<lambda>pc.
         \<lparr>File = ''foo.go'', Line = 10, Address = pc,
          Delta = (if pc = 0x401108 then - 1 else 0)\<rparr>),
      LocationInfoForFileLine = (\<lambda>file line.
         \<lparr>File = file, Line = line, Address = 0x401100, Delta = 0\<rparr>),
      NextLocation = (\<lambda>a.
         if a < 0x401108 then \<lparr>File = ''foo.go'', Line = 10, Address = 0x401108, Delta = 0\<rparr>
         else if a < 0x401110
           then \<lparr>File = ''foo.go'', Line = 11, Address = 0x401110, Delta = 0\<rparr>
         else if a < 0x401118
           then \<lparr>File = ''foo.go'', Line = 12, Address = 0x401118, Delta = 0\<rparr>
         else \<lparr>File = ''bar.go'', Line = 3, Address = 0x401200, Delta = 0\<rparr>)\<rparr>"

definition frames :: "uint64 \<Rightarrow> error + FrameDescriptionEntry" where
  "frames pc =
     (if 0x401100 \<le> pc \<and> pc < 0x401120
      then Inr \<lparr>End = 0x401120, ReturnAddressOffset = (\<lambda>pc. 16)\<rparr>
      else Inl (Errorf ''could not find FDE for PC %#v'' [ArgUint pc]))"

definition session :: "World DebuggedProcess" where
  "session =
     \<lparr>Pid = 100, GoSymTable = symbols, FrameEntries = frames, LineInfo = lines,
      HWBreakPoints = [None, None, None, None], BreakPoints = [],
      Threads = [(100, \<lparr>Id_thread = 100, Status = None\<rparr>)], CurrentThread = Some 100,
      os = \<lparr>task = 0, portSet = 0, exceptionPort = 0, notificationPort = 1\<rparr>,
      breakpointIDCounter = 0, running = False, halt = False,
      target = \<lparr>pending = [(100, trap_status)],
                regs_of = [(100, \<lparr>PC = 0x401100, SP = 0x7000\<rparr>)], calls = []\<rparr>\<rparr>"

definition library :: Library where
  "library =
     \<lparr>Abs = (\<lambda>s. Inr (''/src/'' @ s)),
      Atoi = (\<lambda>s. if s = ''10'' then Inr 10 else Inl (Errorf ''strconv.Atoi: invalid syntax'' [])),
      ParseUint = (\<lambda>s.
         if s = ''2'' then Inr 2
         else if s = ''5'' then Inr 5
         else if s = ''0x401100'' then Inr 0x401100
         else Inl (Errorf ''strconv.ParseUint: invalid syntax'' []))\<rparr>"

definition session_with_breakpoints :: "World DebuggedProcess" where
  "session_with_breakpoints =
     session\<lparr>HWBreakPoints :=
               [Some \<lparr>ID = 1, Addr = 0x401100, OriginalData = [], Temp = False, reg = Some 0\<rparr>,
                Some \<lparr>ID = 2, Addr = 0x401110, OriginalData = [], Temp = False, reg = Some 1\<rparr>,
                Some \<lparr>ID = 3, Addr = 0x401300, OriginalData = [], Temp = True, reg = Some 2\<rparr>,
                Some \<lparr>ID = 4, Addr = 0x401400, OriginalData = [], Temp = False, reg = Some 3\<rparr>],
             BreakPoints :=
               [(0x401118, \<lparr>ID = 5, Addr = 0x401118, OriginalData = [0x90], Temp = False,
                            reg = None\<rparr>)],
             breakpointIDCounter := 5\<rparr>"

definition session_at :: "uint64 \<Rightarrow> World DebuggedProcess" where
  "session_at pc =
     session_with_breakpoints
       \<lparr>target := \<lparr>pending = [(100, trap_status)],
                   regs_of = [(100, \<lparr>PC = pc, SP = 0x7000\<rparr>)], calls = []\<rparr>\<rparr>"


definition session_user :: "World DebuggedProcess" where
  "session_user =
     session
       \<lparr>HWBreakPoints :=
          [Some \<lparr>ID = 1, Addr = 0x401110, OriginalData = [], Temp = False, reg = Some 0\<rparr>,
           None, None, None],
        breakpointIDCounter := 1,
        target := \<lparr>pending = [(100, trap_status)],
                   regs_of = [(100, \<lparr>PC = 0x401108, SP = 0x7000\<rparr>)], calls = []\<rparr>\<rparr>"

definition session_three_hw :: "World DebuggedProcess" where
  "session_three_hw =
     session
       \<lparr>HWBreakPoints :=
          [Some \<lparr>ID = 1, Addr = 0x401400, OriginalData = [], Temp = False, reg = Some 0\<rparr>,
           Some \<lparr>ID = 2, Addr = 0x401500, OriginalData = [], Temp = False, reg = Some 1\<rparr>,
           Some \<lparr>ID = 3, Addr = 0x401600, OriginalData = [], Temp = False, reg = Some 2\<rparr>,
           None],
        breakpointIDCounter := 3\<rparr>"

section \<open>What the specification says, in the terms of the model\<close>

text \<open>The breakpoints of a process: the hardware slots in order, then the software map.\<close>

definition all_breakpoints :: "'w DebuggedProcess \<Rightarrow> BreakPoint list" where
  "all_breakpoints dbp =
     List.map_filter (\<lambda>s. s) (HWBreakPoints dbp) @ map snd (BreakPoints dbp)"


text \<open>The scripted target with a single step that always fails.\<close>

definition scripted_stuck :: "World Backend" where
  "scripted_stuck = scripted\<lparr>singleStep := (\<lambda>tid w. (Some ESRCH, logged ''singlestep'' w))\<rparr>"

text \<open>The scripted target with a program counter that cannot be written.\<close>

definition scripted_norewind :: "World Backend" where
  "scripted_norewind = scripted\<lparr>SetPC := (\<lambda>tid pc w. (Some EPERM, logged ''setpc'' w))\<rparr>"

text \<open>
  The rows of the line table that follow an address: each is \<open>NextLocation\<close> of the
  address of the one before.
\<close>

fun rows_from :: "DebugLineInfo \<Rightarrow> uint64 \<Rightarrow> nat \<Rightarrow> Location list" where
  "rows_from li a 0 = []"
| "rows_from li a (Suc n) = NextLocation li a # rows_from li (Address (NextLocation li a)) n"

text \<open>Placing a temporary breakpoint: \<open>Break\<close>, then the mark on what it returned.\<close>

definition plant_temporary ::
  "'w Backend \<Rightarrow> uint64 \<Rightarrow> 'w DebuggedProcess \<Rightarrow> error option \<times> 'w DebuggedProcess" where
  "plant_temporary K a dbp =
     (case Break K a dbp of
        (Inl err, d) \<Rightarrow> (Some err, d)
      | (Inr bp, d) \<Rightarrow> (None, set_Temp bp d))"

text \<open>
  Section 4.4 on \<open>Next\<close>, read over a list of rows: a row at \<open>pc\<close> is skipped; a
  row below the end of the function gets a temporary breakpoint, and
  \<open>BreakpointExists\<close> is tolerated; the first row at or beyond the end makes the
  return address be read at \<open>SP + (ReturnAddressOffset(pc) - 8)\<close>, gets a temporary
  breakpoint there, and ends the scan. \<open>None\<close>: the rows ran out before the scan
  ended.
\<close>

fun plant_rows ::
  "'w Backend \<Rightarrow> int \<Rightarrow> uint64 \<Rightarrow> FrameDescriptionEntry \<Rightarrow> Location list \<Rightarrow>
   'w DebuggedProcess \<Rightarrow> (error option \<times> 'w DebuggedProcess) option" where
  "plant_rows K thread pc fde [] dbp = None"
| "plant_rows K thread pc fde (row # rows) dbp =
     (if Address row = pc then plant_rows K thread pc fde rows dbp
      else if Address row < End fde then
        (case plant_temporary K (Address row) dbp of
           (None, d) \<Rightarrow> plant_rows K thread pc fde rows d
         | (Some err, d) \<Rightarrow>
             if is_BreakPointExistsError err then plant_rows K thread pc fde rows d
             else Some (Some err, d))
      else
        (case Registers K thread dbp of
           (Inl err, d) \<Rightarrow> Some (Some (Panic ''Could not obtain register values''), d)
         | (Inr regs, d) \<Rightarrow>
             (case readMemory K thread (SP regs + (ReturnAddressOffset fde pc - 8))
                     (replicate 8 0) (target d) of
                ((data, _), w) \<Rightarrow>
                  (case LittleEndian_Uint64 data of
                     Inl p \<Rightarrow> Some (Some p, d\<lparr>target := w\<rparr>)
                   | Inr ret \<Rightarrow>
                       (case plant_temporary K ret (d\<lparr>target := w\<rparr>) of
                          (None, d') \<Rightarrow> Some (None, d')
                        | (Some err, d') \<Rightarrow>
                            Some (if is_Panic err then Some err else None, d'))))))"

text \<open>
  The invariant of section 3 on the current thread: it is nil only while no thread
  has been discovered, and otherwise it is a thread of the registry.
\<close>

definition CurrentThread_registered :: "'w DebuggedProcess \<Rightarrow> bool" where
  "CurrentThread_registered dbp =
     (case CurrentThread dbp of
        None \<Rightarrow> Threads dbp = []
      | Some thread \<Rightarrow> map_of (Threads dbp) thread \<noteq> None)"

section \<open>Properties\<close>

subsection \<open>Auxiliary facts\<close>

lemma find_HWBreakPoint_find:
  "find_HWBreakPoint P ss = find P (List.map_filter (\<lambda>s. s) ss)"
  by (induction P ss rule: find_HWBreakPoint.induct) (auto simp: List.map_filter_simps)

lemma find_ID_find:
  "find_ID n es = find (\<lambda>bp. word_of_int (ID bp) = n) (map snd es)"
  by (induction es) auto

lemma find_append:
  "find P (xs @ ys) = (case find P xs of Some x \<Rightarrow> Some x | None \<Rightarrow> find P ys)"
  by (induction xs) auto

lemma ID_word:
  assumes "0 \<le> i" and "i < 2 ^ 63"
  shows "(word_of_int i = (n::64 word)) = (i = uint n)"
proof
  assume "word_of_int i = n"
  then have "uint n = take_bit 64 i" by (auto simp: uint_word_of_int_eq)
  moreover have "i < 2 ^ 64" using assms(2) by simp
  ultimately show "i = uint n" using assms(1) by (simp add: take_bit_int_eq_self)
next
  assume "i = uint n"
  then show "word_of_int i = n" by simp
qed

lemma pair_collapse: "fst p = a \<Longrightarrow> p = (a, snd p)"
  by (cases p) simp

lemma Some_pair_collapse: "map_option fst r = Some a \<Longrightarrow> r = Some (a, snd (the r))"
  by (cases r) auto

lemma Inr_collapse: "\<not> isl x \<Longrightarrow> x = Inr (projr x)"
  by (cases x) simp_all



subsection \<open>The guard \<open>run\<close>\<close>

text \<open>
  C7. Whatever the driver function \<open>fn\<close> is, when it returns: \<open>run\<close> returns
  success if \<open>fn\<close> returned \<open>ManualStopError\<close>, returns the very error of \<open>fn\<close>
  if it returned another one, and in every case hands back the process with
  \<open>running\<close> false, so that \<open>Running\<close> reports false.
\<close>

theorem run_swallows_ManualStopError:
  assumes "fn (dbp\<lparr>running := True, halt := False\<rparr>) = Some (err, dbp')"
  shows "run fn dbp =
           Some (if err = Some ManualStopError then None else err, dbp'\<lparr>running := False\<rparr>)
         \<and> Running (dbp'\<lparr>running := False\<rparr>) = False"
  using assms by (auto simp: run_def Running_def split: option.splits)

theorem run_swallows_ManualStopError_witness:
  "run (\<lambda>d. Some (Some ManualStopError, d)) session
     = Some (None, session\<lparr>running := True, halt := False, running := False\<rparr>)
   \<and> run (\<lambda>d. Some (Some ESRCH, d)) session
     = Some (Some ESRCH, session\<lparr>running := True, halt := False, running := False\<rparr>)
   \<and> run (\<lambda>d. Some (None, d)) session
     = Some (None, session\<lparr>running := True, halt := False, running := False\<rparr>)
   \<and> Running (session\<lparr>running := True, halt := False, running := False\<rparr>) = False"
  using run_swallows_ManualStopError
          [of "\<lambda>d. Some (Some ManualStopError, d)" session "Some ManualStopError"
              "session\<lparr>running := True, halt := False\<rparr>"]
        run_swallows_ManualStopError
          [of "\<lambda>d. Some (Some ESRCH, d)" session "Some ESRCH"
              "session\<lparr>running := True, halt := False\<rparr>"]
        run_swallows_ManualStopError
          [of "\<lambda>d. Some (None, d)" session None "session\<lparr>running := True, halt := False\<rparr>"]
  by simp

subsection \<open>Adding a thread that is already known\<close>

text \<open>
  C10. On both hosts, \<open>addThread\<close> on an id that the registry already holds returns
  the registered thread and the process exactly as it was: the registry, the current
  thread and the state of the target are unchanged, so no attach, wait or
  ptrace-option call has been made on the target, whatever the backend is.
\<close>

theorem addThread_idempotent:
  assumes "map_of (Threads dbp) tid = Some th"
  shows "addThread K tid attach dbp = (Inr tid, dbp)
         \<and> addThread_darwin K tid attach dbp = (Inr tid, dbp)"
  using assms by (simp add: addThread_def addThread_darwin_def)

theorem addThread_idempotent_witness:
  "map_of (Threads session) 100 = Some \<lparr>Id_thread = 100, Status = None\<rparr>
   \<and> addThread scripted 100 True session = (Inr 100, session)
   \<and> addThread_darwin scripted 100 False session = (Inr 100, session)
   \<and> calls (target (snd (addThread scripted 100 True session))) = []"
proof -
  have h: "map_of (Threads session) 100 = Some \<lparr>Id_thread = 100, Status = None\<rparr>"
    by (simp add: session_def)
  show ?thesis
    using h addThread_idempotent [OF h, of scripted True]
          addThread_idempotent [OF h, of scripted False]
    by (simp add: session_def)
qed

subsection \<open>Locations given as numbers\<close>

text \<open>
  C8. For a string without a colon that names no function: if it parses as an
  unsigned integer \<open>n\<close>, \<open>FindLocation\<close> returns the address of the first
  breakpoint whose id is \<open>n\<close>, the hardware slots being searched before the software
  map, and \<open>n\<close> itself as a raw address when no breakpoint has that id; if it does
  not parse, \<open>FindLocation\<close> fails with the location-not-found error. Ids are those
  the counter hands out, non-negative values of Go's \<open>int\<close>.
\<close>

theorem FindLocation_number:
  assumes "CHR '':'' \<notin> set str" and "LookupFunc (GoSymTable dbp) str = None"
    and "list_all (\<lambda>bp. 0 \<le> ID bp \<and> ID bp < 2 ^ 63) (all_breakpoints dbp)"
  shows "(ParseUint L str = Inr n \<longrightarrow>
            FindLocation L dbp str =
              Inr (case find (\<lambda>bp. ID bp = uint n) (all_breakpoints dbp) of
                     Some bp \<Rightarrow> Addr bp | None \<Rightarrow> n))
         \<and> (ParseUint L str = Inl err \<longrightarrow>
              FindLocation L dbp str = Inl (Errorf ''unable to find location for %s'' [ArgStr str]))"
proof -
  have eq: "find (\<lambda>bp. word_of_int (ID bp) = n) (all_breakpoints dbp)
            = find (\<lambda>bp. ID bp = uint n) (all_breakpoints dbp)"
    using assms(3) by (intro find_cong) (auto simp: list_all_iff ID_word)
  show ?thesis
    using assms(1,2) eq
    by (auto simp: FindLocation_def find_HWBreakPoint_find find_ID_find all_breakpoints_def
        find_append split: option.splits sum.splits)
qed

theorem FindLocation_number_witness:
  "list_all (\<lambda>bp. 0 \<le> ID bp \<and> ID bp < 2 ^ 63) (all_breakpoints session_with_breakpoints)
   \<and> FindLocation library session_with_breakpoints ''2'' = Inr 0x401110
   \<and> FindLocation library session_with_breakpoints ''5'' = Inr 0x401118
   \<and> FindLocation library session_with_breakpoints ''0x401100'' = Inr 0x401100
   \<and> FindLocation library session_with_breakpoints ''nowhere''
       = Inl (Errorf ''unable to find location for %s'' [ArgStr ''nowhere''])"
proof -
  have ids: "list_all (\<lambda>bp. 0 \<le> ID bp \<and> ID bp < 2 ^ 63) (all_breakpoints session_with_breakpoints)"
    by (simp add: all_breakpoints_def session_with_breakpoints_def session_def
        List.map_filter_simps)
  have nofun: "LookupFunc (GoSymTable session_with_breakpoints) s = None"
    if "s \<noteq> ''main.foo''" for s
    using that by (simp add: session_with_breakpoints_def session_def symbols_def)
  have bps: "all_breakpoints session_with_breakpoints =
      [\<lparr>ID = 1, Addr = 0x401100, OriginalData = [], Temp = False, reg = Some 0\<rparr>,
       \<lparr>ID = 2, Addr = 0x401110, OriginalData = [], Temp = False, reg = Some 1\<rparr>,
       \<lparr>ID = 3, Addr = 0x401300, OriginalData = [], Temp = True, reg = Some 2\<rparr>,
       \<lparr>ID = 4, Addr = 0x401400, OriginalData = [], Temp = False, reg = Some 3\<rparr>,
       \<lparr>ID = 5, Addr = 0x401118, OriginalData = [0x90], Temp = False, reg = None\<rparr>]"
    by (simp add: all_breakpoints_def session_with_breakpoints_def session_def
        List.map_filter_simps)
  have a: "FindLocation library session_with_breakpoints ''2'' = Inr 0x401110"
    using FindLocation_number [of "''2''" session_with_breakpoints library 2, OF _ nofun ids]
    by (simp add: library_def bps)
  have b: "FindLocation library session_with_breakpoints ''5'' = Inr 0x401118"
    using FindLocation_number [of "''5''" session_with_breakpoints library 5, OF _ nofun ids]
    by (simp add: library_def bps)
  have c: "FindLocation library session_with_breakpoints ''0x401100'' = Inr 0x401100"
    using FindLocation_number
            [of "''0x401100''" session_with_breakpoints library "0x401100", OF _ nofun ids]
    by (simp add: library_def bps)
  have d: "FindLocation library session_with_breakpoints ''nowhere''
       = Inl (Errorf ''unable to find location for %s'' [ArgStr ''nowhere''])"
    using FindLocation_number
            [of "''nowhere''" session_with_breakpoints library _
                "Errorf ''strconv.ParseUint: invalid syntax'' []", OF _ nofun ids]
    by (simp add: library_def)
  show ?thesis using ids a b c d by simp
qed

subsection \<open>What the thread operations leave alone\<close>



lemma setBreakpoint_Threads [simp]: "Threads (snd (setBreakpoint K t a d)) = Threads d"
  by (simp add: setBreakpoint_def split: prod.splits option.splits)

lemma clearBreakpoint_Threads [simp]: "Threads (snd (clearBreakpoint K t a d)) = Threads d"
  by (simp add: clearBreakpoint_def split: prod.splits option.splits)









lemma setBreakpoint_LineInfo [simp]: "LineInfo (snd (setBreakpoint K t a d)) = LineInfo d"
  by (simp add: setBreakpoint_def split: prod.splits option.splits)

lemma Break_LineInfo [simp]: "LineInfo (snd (Break K a d)) = LineInfo d"
  by (simp add: Break_def split: option.splits)

lemma set_Temp_LineInfo [simp]: "LineInfo (set_Temp r d) = LineInfo d"
  by (simp add: set_Temp_def split: bpref.splits)

lemma plant_temporary_LineInfo [simp]: "LineInfo (snd (plant_temporary K a d)) = LineInfo d"
proof (cases "Break K a d")
  case (Pair r d')
  then have "LineInfo d' = LineInfo d"
    using Break_LineInfo [of K a d] by simp
  then show ?thesis
    using Pair by (cases r) (simp_all add: plant_temporary_def)
qed

lemma free_slot_bound: "free_slot ss k = Some i \<Longrightarrow> k \<le> i \<and> i - k < length ss"
  by (induction ss k rule: free_slot.induct) (auto split: if_splits)

lemma setBreakpoint_installs:
  assumes "setBreakpoint K tid a d = (Inr r, d')"
  shows "BreakpointExists d' a"
proof (cases "free_slot (HWBreakPoints d) 0")
  case None
  then show ?thesis
    using assms
    by (auto simp: setBreakpoint_def BreakpointExists_def update_conv'
        split: if_splits prod.splits option.splits)
next
  case (Some i)
  let ?bp = "\<lparr>ID = breakpointIDCounter d + 1, Addr = a, OriginalData = [], Temp = False,
              reg = Some i\<rparr>"
  have "i < length (HWBreakPoints d)"
    using free_slot_bound [of "HWBreakPoints d" 0 i] Some by simp
  then have "Some ?bp \<in> set ((HWBreakPoints d)[i := Some ?bp])"
    by (rule set_update_memI)
  then have "list_ex (\<lambda>s. case s of None \<Rightarrow> False | Some bp \<Rightarrow> Addr bp = a)
               ((HWBreakPoints d)[i := Some ?bp])"
    unfolding list_ex_iff by (rule bexI [rotated]) simp
  then show ?thesis
    using assms Some
    by (auto simp: setBreakpoint_def BreakpointExists_def
        split: if_splits prod.splits option.splits)
qed

lemma Break_installs: "Break K a d = (Inr r, d') \<Longrightarrow> BreakpointExists d' a"
  by (auto simp: Break_def split: option.splits dest: setBreakpoint_installs)

subsection \<open>Stepping over a software breakpoint\<close>

text \<open>
  The paths through the single step. The thread stands one byte past a software
  breakpoint, \<open>Clear\<close> has removed it and the program counter has been rewound to
  its address. Then the single step is issued and, whatever it returns, success or
  failure, \<open>Step\<close> ends with \<open>Break\<close> at that address on the state the single
  step left, and its result is the result of that \<open>Break\<close>; when that is success,
  a breakpoint covers the address again.
\<close>

lemma Step_rearms_breakpoint:
  assumes "Registers K thread dbp = (Inr regs, d0)"
      and "map_of (BreakPoints d0) (PC regs - 1) = Some bp"
      and "Clear K (Addr bp) d0 = (Inr cleared, d1)"
      and "SetPC K thread (Addr bp) (target d1) = (None, w)"
      and "singleStep K thread w = (stepped, w')"
  shows "ThreadContext_Step K thread dbp =
           (case Break K (Addr bp) (d1\<lparr>target := w'\<rparr>) of
              (Inl err, d2) \<Rightarrow> (Some err, d2)
            | (Inr r, d2) \<Rightarrow> (None, d2))
         \<and> (fst (ThreadContext_Step K thread dbp) = None \<longrightarrow>
              BreakpointExists (snd (ThreadContext_Step K thread dbp)) (Addr bp))"
proof -
  have eq: "ThreadContext_Step K thread dbp =
           (case Break K (Addr bp) (d1\<lparr>target := w'\<rparr>) of
              (Inl err, d2) \<Rightarrow> (Some err, d2)
            | (Inr r, d2) \<Rightarrow> (None, d2))"
    using assms by (simp add: ThreadContext_Step_def)
  show ?thesis
  proof (cases "Break K (Addr bp) (d1\<lparr>target := w'\<rparr>)")
    case (Pair r d2)
    then show ?thesis
      using eq by (cases r) (auto dest: Break_installs)
  qed
qed

lemma Step_rearms_breakpoint_scripted:
  "(let r = ThreadContext_Step scripted 100 (session_at 0x401119)
    in fst r = None \<and> BreakpointExists (snd r) 0x401118
       \<and> calls (target (snd r)) = [''write'', ''setpc'', ''singlestep'', ''read'', ''write''])
   \<and> (let r = ThreadContext_Step scripted_stuck 100 (session_at 0x401119)
       in fst r = None \<and> BreakpointExists (snd r) 0x401118
          \<and> calls (target (snd r)) = [''write'', ''setpc'', ''singlestep'', ''read'', ''write''])"
proof -
  let ?s = "session_at 0x401119"
  let ?bp = "\<lparr>ID = 5, Addr = 0x401118, OriginalData = [0x90], Temp = False, reg = None\<rparr>"
  have A: "fst (ThreadContext_Step scripted 100 ?s) = None \<longrightarrow>
             BreakpointExists (snd (ThreadContext_Step scripted 100 ?s)) 0x401118"
  proof -
    let ?K = scripted
    let ?a = "snd (Registers ?K 100 ?s)"
    let ?b = "snd (Clear ?K 0x401118 ?a)"
    let ?w = "snd (SetPC ?K 100 0x401118 (target ?b))"
    let ?v = "snd (singleStep ?K 100 ?w)"
    have h1: "Registers ?K 100 ?s = (Inr \<lparr>PC = 0x401119, SP = 0x7000\<rparr>, ?a)"
      by (rule pair_collapse) code_simp
    have h2: "map_of (BreakPoints ?a) (PC \<lparr>PC = 0x401119, SP = 0x7000\<rparr> - 1) = Some ?bp"
      by code_simp
    have h3: "Clear ?K (Addr ?bp) ?a = (Inr ?bp, snd (Clear ?K (Addr ?bp) ?a))"
      by (rule pair_collapse) code_simp
    have h4: "SetPC ?K 100 (Addr ?bp) (target (snd (Clear ?K (Addr ?bp) ?a)))
                = (None, snd (SetPC ?K 100 (Addr ?bp) (target (snd (Clear ?K (Addr ?bp) ?a)))))"
      by (rule pair_collapse) code_simp
    have h5: "singleStep ?K 100 (snd (SetPC ?K 100 (Addr ?bp) (target (snd (Clear ?K (Addr ?bp) ?a)))))
                = (None, snd (singleStep ?K 100
                     (snd (SetPC ?K 100 (Addr ?bp) (target (snd (Clear ?K (Addr ?bp) ?a)))))))"
      by (rule pair_collapse) code_simp
    show ?thesis
      using Step_rearms_breakpoint [OF h1 h2 h3 h4 h5, THEN conjunct2] by simp
  qed
  have B: "fst (ThreadContext_Step scripted_stuck 100 ?s) = None \<longrightarrow>
             BreakpointExists (snd (ThreadContext_Step scripted_stuck 100 ?s)) 0x401118"
  proof -
    let ?K = scripted_stuck
    let ?a = "snd (Registers ?K 100 ?s)"
    have h1: "Registers ?K 100 ?s = (Inr \<lparr>PC = 0x401119, SP = 0x7000\<rparr>, ?a)"
      by (rule pair_collapse) code_simp
    have h2: "map_of (BreakPoints ?a) (PC \<lparr>PC = 0x401119, SP = 0x7000\<rparr> - 1) = Some ?bp"
      by code_simp
    have h3: "Clear ?K (Addr ?bp) ?a = (Inr ?bp, snd (Clear ?K (Addr ?bp) ?a))"
      by (rule pair_collapse) code_simp
    have h4: "SetPC ?K 100 (Addr ?bp) (target (snd (Clear ?K (Addr ?bp) ?a)))
                = (None, snd (SetPC ?K 100 (Addr ?bp) (target (snd (Clear ?K (Addr ?bp) ?a)))))"
      by (rule pair_collapse) code_simp
    have h5: "singleStep ?K 100 (snd (SetPC ?K 100 (Addr ?bp) (target (snd (Clear ?K (Addr ?bp) ?a)))))
                = (Some ESRCH, snd (singleStep ?K 100
                     (snd (SetPC ?K 100 (Addr ?bp) (target (snd (Clear ?K (Addr ?bp) ?a)))))))"
      by (rule pair_collapse) code_simp
    show ?thesis
      using Step_rearms_breakpoint [OF h1 h2 h3 h4 h5, THEN conjunct2] by simp
  qed
  have C: "fst (ThreadContext_Step scripted 100 ?s) = None
           \<and> calls (target (snd (ThreadContext_Step scripted 100 ?s)))
               = [''write'', ''setpc'', ''singlestep'', ''read'', ''write'']
           \<and> fst (ThreadContext_Step scripted_stuck 100 ?s) = None
           \<and> calls (target (snd (ThreadContext_Step scripted_stuck 100 ?s)))
               = [''write'', ''setpc'', ''singlestep'', ''read'', ''write'']"
    by code_simp
  show ?thesis
    using A B C by (simp add: Let_def)
qed


text \<open>
  The path on which the rewind fails. The deferred \<open>Break\<close> is registered only
  after \<open>SetPC\<close> has returned without error, so when \<open>SetPC\<close> fails \<open>Step\<close>
  returns with the state that \<open>Clear\<close> left: no single step, no \<open>Break\<close>.
\<close>

lemma Step_SetPC_fails:
  assumes "Registers K thread dbp = (Inr regs, d0)"
      and "map_of (BreakPoints d0) (PC regs - 1) = Some bp"
      and "Clear K (Addr bp) d0 = (Inr cleared, d1)"
      and "SetPC K thread (Addr bp) (target d1) = (Some err, w)"
  shows "ThreadContext_Step K thread dbp =
           (Some (Errorf ''could not set registers %s'' [ArgErr err]), d1\<lparr>target := w\<rparr>)"
  using assms by (simp add: ThreadContext_Step_def)

text \<open>
  C4. Section 4.4 and section 9 have the breakpoint that \<open>Step\<close> cleared re-armed
  on every way out of \<open>Step\<close>. Here the thread stands at \<open>0x401119\<close>, one byte
  past the software breakpoint at \<open>0x401118\<close>, and the target refuses to have its
  program counter written. \<open>Clear\<close> restores the original byte and removes the
  breakpoint, \<open>SetPC\<close> fails, and \<open>Step\<close> returns that failure: no single step
  has been issued, nothing has been written back, and no breakpoint covers
  \<open>0x401118\<close> any more.
\<close>

theorem Step_SetPC_failure_loses_breakpoint:
  "BreakpointExists (session_at 0x401119) 0x401118
   \<and> fst (ThreadContext_Step scripted_norewind 100 (session_at 0x401119))
       = Some (Errorf ''could not set registers %s'' [ArgErr EPERM])
   \<and> \<not> BreakpointExists (snd (ThreadContext_Step scripted_norewind 100 (session_at 0x401119)))
           0x401118
   \<and> BreakPoints (snd (ThreadContext_Step scripted_norewind 100 (session_at 0x401119))) = []
   \<and> calls (target (snd (ThreadContext_Step scripted_norewind 100 (session_at 0x401119))))
       = [''write'', ''setpc'']"
  by code_simp

subsection \<open>The dispatch of a trap in \<open>Continue\<close>\<close>






subsection \<open>Clone events in the wait loop\<close>



subsection \<open>The loop of \<open>Next\<close> against the scan of the rows\<close>

lemma Next_loop_skip:
  "Address (NextLocation (LineInfo dbp) (Address loc)) = pc \<Longrightarrow>
   Next_loop K thread pc fde loc dbp
     = Next_loop K thread pc fde (NextLocation (LineInfo dbp) (Address loc)) dbp"
  by (subst Next_loop.simps) (simp add: Let_def)

lemma Next_loop_row:
  assumes "Address (NextLocation (LineInfo dbp) (Address loc)) \<noteq> pc"
      and "Address (NextLocation (LineInfo dbp) (Address loc)) < End fde"
  shows "Next_loop K thread pc fde loc dbp =
     (case plant_temporary K (Address (NextLocation (LineInfo dbp) (Address loc))) dbp of
        (None, d) \<Rightarrow> Next_loop K thread pc fde (NextLocation (LineInfo dbp) (Address loc)) d
      | (Some err, d) \<Rightarrow>
          if is_BreakPointExistsError err
          then Next_loop K thread pc fde (NextLocation (LineInfo dbp) (Address loc)) d
          else Some (Some err, d))"
  using assms
  by (subst Next_loop.simps)
     (auto simp: Let_def plant_temporary_def split: prod.splits sum.splits)

lemma Next_loop_end:
  assumes "Address (NextLocation (LineInfo dbp) (Address loc)) \<noteq> pc"
      and "\<not> Address (NextLocation (LineInfo dbp) (Address loc)) < End fde"
  shows "Next_loop K thread pc fde loc dbp =
     plant_rows K thread pc fde [NextLocation (LineInfo dbp) (Address loc)] dbp"
  using assms
  by (subst Next_loop.simps)
     (auto simp: Let_def plant_temporary_def ReturnAddressFromOffset_def
           split: prod.splits sum.splits)

lemma plant_rows_end:
  assumes "Address row \<noteq> pc" and "\<not> Address row < End fde"
  shows "plant_rows K thread pc fde (row # rows) dbp = plant_rows K thread pc fde [row] dbp"
  using assms by simp

lemma Next_loop_refines:
  "plant_rows K thread pc fde (rows_from (LineInfo dbp) (Address loc) n) dbp = Some res \<Longrightarrow>
   Next_loop K thread pc fde loc dbp = Some res"
proof (induction n arbitrary: loc dbp)
  case 0
  then show ?case by simp
next
  case (Suc n)
  let ?row = "NextLocation (LineInfo dbp) (Address loc)"
  let ?rest = "rows_from (LineInfo dbp) (Address ?row) n"
  have rows: "rows_from (LineInfo dbp) (Address loc) (Suc n) = ?row # ?rest"
    by simp
  consider (skip) "Address ?row = pc"
    | (row) "Address ?row \<noteq> pc" "Address ?row < End fde"
    | (last) "Address ?row \<noteq> pc" "\<not> Address ?row < End fde"
    by blast
  then show ?case
  proof cases
    case skip
    then have "plant_rows K thread pc fde ?rest dbp = Some res"
      using Suc.prems by simp
    then have "Next_loop K thread pc fde ?row dbp = Some res"
      by (rule Suc.IH)
    then show ?thesis
      using skip by (simp add: Next_loop_skip)
  next
    case row
    obtain r d where P: "plant_temporary K (Address ?row) dbp = (r, d)"
      by (cases "plant_temporary K (Address ?row) dbp")
    have L: "LineInfo d = LineInfo dbp"
      using plant_temporary_LineInfo [of K "Address ?row" dbp] P by simp
    show ?thesis
    proof (cases "r = None \<or> (\<exists>err. r = Some err \<and> is_BreakPointExistsError err)")
      case True
      then have "plant_rows K thread pc fde (rows_from (LineInfo d) (Address ?row) n) d = Some res"
        using Suc.prems row P L by (auto simp del: rows_from.simps simp add: rows)
      then have "Next_loop K thread pc fde ?row d = Some res"
        by (rule Suc.IH)
      then show ?thesis
        using True row P by (auto simp: Next_loop_row)
    next
      case False
      then obtain err where "r = Some err" "\<not> is_BreakPointExistsError err"
        by (cases r) auto
      then show ?thesis
        using Suc.prems row P by (auto simp: Next_loop_row)
    qed
  next
    case last
    have "plant_rows K thread pc fde (?row # ?rest) dbp = plant_rows K thread pc fde [?row] dbp"
      using last by (rule plant_rows_end)
    then have "plant_rows K thread pc fde [?row] dbp = Some res"
      using Suc.prems unfolding rows by (simp only:)
    moreover have "Next_loop K thread pc fde loc dbp = plant_rows K thread pc fde [?row] dbp"
      using last by (rule Next_loop_end)
    ultimately show ?thesis
      by (simp only:)
  qed
qed

lemma plant_rows_skip:
  "Address row = pc \<Longrightarrow>
   plant_rows K thread pc fde (row # rows) dbp = plant_rows K thread pc fde rows dbp"
  by simp

lemma plant_rows_row:
  "Address row \<noteq> pc \<Longrightarrow> Address row < End fde \<Longrightarrow>
   plant_rows K thread pc fde (row # rows) dbp =
     (case plant_temporary K (Address row) dbp of
        (None, d) \<Rightarrow> plant_rows K thread pc fde rows d
      | (Some err, d) \<Rightarrow>
          if is_BreakPointExistsError err then plant_rows K thread pc fde rows d
          else Some (Some err, d))"
  by simp

lemma Next_loop_scans:
  assumes "Next_loop K thread pc fde loc dbp = Some res"
  shows "\<exists>n. plant_rows K thread pc fde (rows_from (LineInfo dbp) (Address loc) n) dbp = Some res"
proof (rule Next_loop.raw_induct
    [where P = "\<lambda>K thread pc fde loc dbp res.
       \<exists>n. plant_rows K thread pc fde (rows_from (LineInfo dbp) (Address loc) n) dbp = Some res",
     OF _ assms], goal_cases)
  case (1 loop K thread pc fde loc dbp res)
  note IH = 1(1) and body0 = 1(2)
  let ?row = "NextLocation (LineInfo dbp) (Address loc)"
  have rows: "rows_from (LineInfo dbp) (Address loc) (Suc n)
              = ?row # rows_from (LineInfo dbp) (Address ?row) n" for n
    by simp
  consider (skip) "Address ?row = pc"
    | (row) "Address ?row \<noteq> pc" "Address ?row < End fde"
    | (last) "Address ?row \<noteq> pc" "\<not> Address ?row < End fde"
    by blast
  then show ?case
  proof cases
    case skip
    then have "loop K thread pc fde ?row dbp = Some res"
      using body0 by (simp add: Let_def)
    then obtain n where
      "plant_rows K thread pc fde (rows_from (LineInfo dbp) (Address ?row) n) dbp = Some res"
      using IH by blast
    then have "plant_rows K thread pc fde (rows_from (LineInfo dbp) (Address loc) (Suc n)) dbp
               = Some res"
      unfolding rows using skip by (simp only: plant_rows_skip)
    then show ?thesis by blast
  next
    case row
    obtain r d where P: "plant_temporary K (Address ?row) dbp = (r, d)"
      by (cases "plant_temporary K (Address ?row) dbp")
    have L: "LineInfo d = LineInfo dbp"
      using plant_temporary_LineInfo [of K "Address ?row" dbp] P by simp
    have body: "(case plant_temporary K (Address ?row) dbp of
                   (None, d) \<Rightarrow> loop K thread pc fde ?row d
                 | (Some err, d) \<Rightarrow>
                     if is_BreakPointExistsError err then loop K thread pc fde ?row d
                     else Some (Some err, d)) = Some res"
    proof -
      have "\<not> End fde \<le> Address ?row"
        using row(2) by simp
      then show ?thesis
        using body0 row(1)
        by (auto simp: Let_def plant_temporary_def split: prod.splits sum.splits)
    qed
    show ?thesis
    proof (cases "r = None \<or> (\<exists>err. r = Some err \<and> is_BreakPointExistsError err)")
      case True
      then have "loop K thread pc fde ?row d = Some res"
        using body P by auto
      then obtain n where
        "plant_rows K thread pc fde (rows_from (LineInfo d) (Address ?row) n) d = Some res"
        using IH by blast
      then have "plant_rows K thread pc fde (rows_from (LineInfo dbp) (Address loc) (Suc n)) dbp
                 = Some res"
        unfolding rows using row True P L by (auto simp: plant_rows_row simp del: plant_rows.simps)
      then show ?thesis by blast
    next
      case False
      then obtain err where e: "r = Some err" "\<not> is_BreakPointExistsError err"
        by (cases r) auto
      then have "res = (Some err, d)"
        using body P by simp
      then have "plant_rows K thread pc fde (rows_from (LineInfo dbp) (Address loc) (Suc 0)) dbp
                 = Some res"
        unfolding rows using row e P by (simp add: plant_rows_row del: plant_rows.simps)
      then show ?thesis by blast
    qed
  next
    case last
    have "End fde \<le> Address ?row"
      using last(2) by simp
    then have "plant_rows K thread pc fde [?row] dbp = Some res"
      using body0 last
      by (auto simp: Let_def plant_temporary_def ReturnAddressFromOffset_def
          split: prod.splits sum.splits)
    then have "plant_rows K thread pc fde (rows_from (LineInfo dbp) (Address loc) (Suc 0)) dbp
               = Some res"
      by simp
    then show ?thesis by blast
  qed
qed

subsection \<open>The scan of the line table in \<open>Next\<close>\<close>

text \<open>
  C2. \<open>Next\<close> on a thread whose program counter, adjusted for a software
  breakpoint, is \<open>pc\<close> inside the function with frame entry \<open>fde\<close>. If the scan of
  section 4.4 over the first \<open>n\<close> rows after the current one ends (skipping rows at
  \<open>pc\<close>, planting a temporary breakpoint at each row below \<open>fde.End()\<close> and
  tolerating \<open>BreakPointExistsError\<close>, and at the first row at or beyond
  \<open>fde.End()\<close> reading the return address at
  \<open>SP + (fde.ReturnAddressOffset(pc) - 8)\<close> and planting a temporary breakpoint
  there), then the loop of \<open>Next\<close> ends too, with the same result and the same
  state, and \<open>Next\<close> goes on to continue the thread. Conversely, whatever the
  loop returns is the result of that scan over some number of rows.
\<close>

theorem Next_plants_temporaries:
  assumes "CurrentPC K thread dbp = (Inr pc0, d0)"
      and "pc = (case map_of (BreakPoints d0) (pc0 - 1) of Some bp \<Rightarrow> Addr bp | None \<Rightarrow> pc0)"
      and "FrameEntries d0 pc = Inr fde"
      and "loc0 = LocationInfoForPC (LineInfo d0) pc"
      and "loc = (if Delta loc0 < 0
                  then LocationInfoForFileLine (LineInfo d0) (File loc0) (Line loc0) else loc0)"
      and "plant_rows K thread pc fde (rows_from (LineInfo d0) (Address loc) n) d0 = Some (r, d1)"
  shows "Next_loop K thread pc fde loc d0 = Some (r, d1)
         \<and> ThreadContext_Next K thread dbp =
             Some (case r of
                     Some err \<Rightarrow> (Some err, d1)
                   | None \<Rightarrow> ThreadContext_Continue K thread d1)
         \<and> (\<forall>res. Next_loop K thread pc fde loc d0 = Some res \<longrightarrow>
               (\<exists>m. plant_rows K thread pc fde (rows_from (LineInfo d0) (Address loc) m) d0
                      = Some res))"
proof -
  have loop: "Next_loop K thread pc fde loc d0 = Some (r, d1)"
    using assms(6) by (rule Next_loop_refines)
  have run: "ThreadContext_Next K thread dbp =
             Some (case r of
                     Some err \<Rightarrow> (Some err, d1)
                   | None \<Rightarrow> ThreadContext_Continue K thread d1)"
    using loop assms(1,3)
    unfolding ThreadContext_Next_def assms(2,4,5) Let_def
    by (cases r) simp_all
  show ?thesis
    using loop run Next_loop_scans by blast
qed

theorem Next_plants_temporaries_witness:
  "map_option (\<lambda>r. (fst r, calls (target (snd r)),
                     map (map_option (\<lambda>bp. (Addr bp, Temp bp))) (HWBreakPoints (snd r)),
                     BreakPoints (snd r)))
     (ThreadContext_Next scripted 100 session_user)
   = Some (None, [''sethw'', ''read'', ''sethw'', ''resume''],
           [Some (0x401110, False), Some (0x401118, True), Some (0x401300, True), None], [])"
proof -
  let ?s = session_user
  let ?a = "snd (CurrentPC scripted 100 ?s)"
  let ?fde = "projr (FrameEntries ?a 0x401108)"
  let ?loc0 = "LocationInfoForPC (LineInfo ?a) 0x401108"
  let ?loc = "if Delta ?loc0 < 0
              then LocationInfoForFileLine (LineInfo ?a) (File ?loc0) (Line ?loc0) else ?loc0"
  let ?rows = "rows_from (LineInfo ?a) (Address ?loc) 4"
  let ?b = "snd (the (plant_rows scripted 100 0x401108 ?fde ?rows ?a))"
  have h1: "CurrentPC scripted 100 ?s = (Inr 0x401108, ?a)"
    by (rule pair_collapse) code_simp
  have h2: "0x401108 = (case map_of (BreakPoints ?a) (0x401108 - 1) of
                          Some bp \<Rightarrow> Addr bp | None \<Rightarrow> 0x401108)"
    by code_simp
  have h3: "FrameEntries ?a 0x401108 = Inr ?fde"
    by (rule Inr_collapse) code_simp
  have rows: "map Address ?rows = [0x401108, 0x401110, 0x401118, 0x401200]"
    by code_simp
  have h6: "plant_rows scripted 100 0x401108 ?fde ?rows ?a = Some (None, ?b)"
    by (rule Some_pair_collapse) code_simp
  have run: "ThreadContext_Next scripted 100 ?s = Some (ThreadContext_Continue scripted 100 ?b)"
    using Next_plants_temporaries [OF h1 h2 h3 refl refl h6, THEN conjunct2, THEN conjunct1]
    by simp
  show ?thesis
    by (simp only: run) code_simp
qed

subsection \<open>Temporary breakpoints after \<open>Next\<close>\<close>

text \<open>
  C1. Section 4.4 has every temporary breakpoint, hardware or software, removed by
  the time \<open>Next\<close> returns, and the breakpoints of the user left in place. Here \<open>Next\<close> runs on a process with one thread at
  \<open>0x401100\<close> and three hardware slots taken by breakpoints of the user. The
  first temporary breakpoint that \<open>Next\<close> plants, at \<open>0x401108\<close>, takes the free
  slot; the others go to the software map. \<open>Next\<close> returns success, the software
  map is empty again, and the hardware slot still holds its temporary breakpoint:
  the deferred function ranges over the software map only.
\<close>

theorem Next_leaves_hardware_temporary:
  "map (map_option (\<lambda>bp. (Addr bp, Temp bp))) (HWBreakPoints session_three_hw)
     = [Some (0x401400, False), Some (0x401500, False), Some (0x401600, False), None]
   \<and> map_option (\<lambda>r. (fst r,
                        map (map_option (\<lambda>bp. (Addr bp, Temp bp))) (HWBreakPoints (snd r)),
                        BreakPoints (snd r)))
       (DebuggedProcess_Next scripted session_three_hw)
     = Some (None,
             [Some (0x401400, False), Some (0x401500, False), Some (0x401600, False),
              Some (0x401108, True)],
             [])"
  by code_simp

subsection \<open>The current thread and the registry\<close>

text \<open>
  C9. Section 3 has the current thread nil only before a thread has been discovered
  and otherwise in the registry, at every point of a session, the mach wait loop
  included. Here the registry holds thread 100, which is the current thread; the port that
  fires is 2 and the thread count cannot be read, so that \<open>updateThreadList\<close>
  fails and registers nothing. \<open>trapWait\<close> of the mach host drops that error and
  assigns the result of its unchecked lookup: the current thread is nil while the
  registry is not empty.
\<close>

theorem trapWait_darwin_loses_CurrentThread:
  "CurrentThread_registered session
   \<and> fst (trapWait_darwin scripted session 0) = Inr 2
   \<and> CurrentThread (snd (trapWait_darwin scripted session 0)) = None
   \<and> map fst (Threads (snd (trapWait_darwin scripted session 0))) = [100]
   \<and> \<not> CurrentThread_registered (snd (trapWait_darwin scripted session 0))"
  by code_simp

text \<open>
  The other assignments keep the invariant: registering a thread, \<open>addThread\<close> on
  both hosts, \<open>SwitchThread\<close>, and the switch in \<open>Continue\<close>, which follows a
  checked lookup.
\<close>

lemma register_thread_registered:
  "CurrentThread_registered dbp \<Longrightarrow> CurrentThread_registered (register_thread tid dbp)"
  by (auto simp: CurrentThread_registered_def register_thread_def Let_def update_conv'
      split: option.splits)

lemma CurrentThread_registered_target [simp]:
  "CurrentThread_registered (dbp\<lparr>target := w\<rparr>) = CurrentThread_registered dbp"
  by (cases "CurrentThread dbp") (simp_all add: CurrentThread_registered_def)

lemma wait_registered [simp]:
  "CurrentThread_registered (snd (wait K pid options dbp)) = CurrentThread_registered dbp"
  by (simp add: wait_def split: prod.splits)

lemma CurrentThread_registered_cong:
  "Threads d = Threads d' \<Longrightarrow> CurrentThread d = CurrentThread d' \<Longrightarrow>
   CurrentThread_registered d = CurrentThread_registered d'"
  by (auto simp: CurrentThread_registered_def split: option.splits)

lemma addThread_frame:
  assumes "addThread K tid attach dbp = (r, d)"
  shows "(Threads d = Threads dbp \<and> CurrentThread d = CurrentThread dbp)
         \<or> (Threads d = Threads (register_thread tid dbp)
            \<and> CurrentThread d = CurrentThread (register_thread tid dbp))"
  using assms
  by (auto simp: addThread_def wait_def register_thread_def Let_def
      split: if_splits prod.splits option.splits)

lemma addThread_registered:
  assumes "CurrentThread_registered dbp"
  shows "CurrentThread_registered (snd (addThread K tid attach dbp))"
proof (cases "addThread K tid attach dbp")
  case (Pair r d)
  from addThread_frame [OF Pair] show ?thesis
  proof
    assume "Threads d = Threads dbp \<and> CurrentThread d = CurrentThread dbp"
    then show ?thesis
      using assms Pair CurrentThread_registered_cong [of d dbp] by simp
  next
    assume "Threads d = Threads (register_thread tid dbp)
            \<and> CurrentThread d = CurrentThread (register_thread tid dbp)"
    then show ?thesis
      using register_thread_registered [OF assms, of tid] Pair
        CurrentThread_registered_cong [of d "register_thread tid dbp"] by simp
  qed
qed

lemma addThread_darwin_registered:
  assumes "CurrentThread_registered dbp"
  shows "CurrentThread_registered (snd (addThread_darwin K port attach dbp))"
  using assms by (simp add: addThread_darwin_def register_thread_registered)

lemma SwitchThread_registered:
  assumes "CurrentThread_registered dbp"
  shows "CurrentThread_registered (snd (SwitchThread tid dbp))"
  using assms
  by (auto simp: SwitchThread_def CurrentThread_registered_def split: option.splits)

lemma Continue_switch_registered:
  assumes "map_of (Threads dbp) wpid = Some thread"
  shows "CurrentThread_registered (dbp\<lparr>CurrentThread := Some wpid\<rparr>)"
  using assms by (simp add: CurrentThread_registered_def)

end
